theory Spec2Isabelle
  imports Complex_Main "HOL-Library.AList"
begin

section \<open>Python values and string operations used by app.py\<close>

text \<open>
  A \<open>string\<close> is a Python \<open>str\<close> whose characters are code points below 256.
  Numbers (durations, JSON numbers) are reals: \<open>int\<close> and \<open>float\<close> are not told apart.
  Python's \<open>//\<close> and \<open>%\<close> on them round where the operands are floats, so the functions that
  use them take the two operators as parameters.
\<close>

datatype pyexn =
    IndexError
  | AttributeError
  | TypeError
  | UnboundLocalError
  | JSONDecodeError
  | ValueError
  | Raised string  \<comment> \<open>any other exception, \<open>str(e)\<close> being the string\<close>

text \<open>The values \<open>json.loads\<close> produces; a dict keeps its items in insertion order.\<close>

datatype pyval =
    PNone
  | PBool bool
  | PNum real
  | PStr string
  | PList "pyval list"
  | PDict "(string \<times> pyval) list"

text \<open>Truth value of a Python object, as tested by \<open>if x\<close> and \<open>not x\<close>.\<close>

fun truthy :: "pyval \<Rightarrow> bool" where
  "truthy PNone = False"
| "truthy (PBool b) = b"
| "truthy (PNum x) = (x \<noteq> 0)"
| "truthy (PStr s) = (s \<noteq> [])"
| "truthy (PList xs) = (xs \<noteq> [])"
| "truthy (PDict kvs) = (kvs \<noteq> [])"

text \<open>\<open>xs[i]\<close> for a non-negative index: out of range raises IndexError.\<close>

definition py_get :: "'a list \<Rightarrow> nat \<Rightarrow> pyexn + 'a" where
  "py_get xs i = (if i < length xs then Inr (xs ! i) else Inl IndexError)"

text \<open>\<open>d.get(k, default)\<close> on a dict given by its items.\<close>

definition dict_get :: "(string \<times> 'v) list \<Rightarrow> string \<Rightarrow> 'v \<Rightarrow> 'v" where
  "dict_get d k dflt = (case map_of d k of None \<Rightarrow> dflt | Some v \<Rightarrow> v)"

text \<open>\<open>str.isspace\<close> on one character: the white space among the code points below 256.\<close>

definition isspace :: "char \<Rightarrow> bool" where
  "isspace c = (c \<in> set [CHR 0x09, CHR 0x0A, CHR 0x0B, CHR 0x0C, CHR 0x0D,
                         CHR 0x1C, CHR 0x1D, CHR 0x1E, CHR 0x1F, CHR 0x20,
                         CHR 0x85, CHR 0xA0])"

text \<open>\<open>s.strip()\<close>\<close>

definition strip :: "string \<Rightarrow> string" where
  "strip s = rev (dropWhile isspace (rev (dropWhile isspace s)))"

text \<open>\<open>s.split()\<close>: the maximal runs of characters that are not white space.\<close>

fun split_ws_acc :: "string \<Rightarrow> string \<Rightarrow> string list" where
  "split_ws_acc w [] = (if w = [] then [] else [w])"
| "split_ws_acc w (c # cs) =
     (if isspace c then (if w = [] then split_ws_acc [] cs else w # split_ws_acc [] cs)
      else split_ws_acc (w @ [c]) cs)"

definition split_ws :: "string \<Rightarrow> string list" where
  "split_ws s = split_ws_acc [] s"

text \<open>\<open>s.split(c)\<close> for a separator of one character.\<close>

fun split_chr_acc :: "char \<Rightarrow> string \<Rightarrow> string \<Rightarrow> string list" where
  "split_chr_acc sep w [] = [w]"
| "split_chr_acc sep w (c # cs) =
     (if c = sep then w # split_chr_acc sep [] cs else split_chr_acc sep (w @ [c]) cs)"

definition split_chr :: "char \<Rightarrow> string \<Rightarrow> string list" where
  "split_chr sep s = split_chr_acc sep [] s"

text \<open>
  \<open>s.find(sep)\<close> and \<open>s.rfind(sep)\<close> for a non-empty separator, returning the text
  before and after the first (last) occurrence.
\<close>

fun find_sep :: "string \<Rightarrow> string \<Rightarrow> (string \<times> string) option" where
  "find_sep sep [] = None"
| "find_sep sep (c # cs) =
     (if take (length sep) (c # cs) = sep then Some ([], drop (length sep) (c # cs))
      else (case find_sep sep cs of None \<Rightarrow> None | Some (a, b) \<Rightarrow> Some (c # a, b)))"

fun rfind_sep :: "string \<Rightarrow> string \<Rightarrow> (string \<times> string) option" where
  "rfind_sep sep [] = None"
| "rfind_sep sep (c # cs) =
     (case rfind_sep sep cs of
        Some (a, b) \<Rightarrow> Some (c # a, b)
      | None \<Rightarrow> (if take (length sep) (c # cs) = sep
                 then Some ([], drop (length sep) (c # cs)) else None))"

text \<open>\<open>s.split(sep, 1)\<close> and \<open>s.rsplit(sep, 1)\<close>\<close>

definition split1 :: "string \<Rightarrow> string \<Rightarrow> string list" where
  "split1 sep s = (case find_sep sep s of None \<Rightarrow> [s] | Some (a, b) \<Rightarrow> [a, b])"

definition rsplit1 :: "string \<Rightarrow> string \<Rightarrow> string list" where
  "rsplit1 sep s = (case rfind_sep sep s of None \<Rightarrow> [s] | Some (a, b) \<Rightarrow> [a, b])"

text \<open>\<open>s.startswith(p)\<close>\<close>

definition startswith :: "string \<Rightarrow> string \<Rightarrow> bool" where
  "startswith s p = (take (length p) s = p)"

text \<open>\<open>str(n)\<close> for an integer.\<close>

fun str_nat :: "nat \<Rightarrow> string" where
  "str_nat n = (if n < 10 then [''0123456789'' ! n]
                else str_nat (n div 10) @ [''0123456789'' ! (n mod 10)])"

declare str_nat.simps [simp del]

definition str_int :: "int \<Rightarrow> string" where
  "str_int i = (if i < 0 then CHR ''-'' # str_nat (nat (- i)) else str_nat (nat i))"

text \<open>\<open>int(x)\<close> on a number: truncation towards zero.\<close>

definition py_int :: "real \<Rightarrow> int" where
  "py_int x = (if 0 \<le> x then \<lfloor>x\<rfloor> else \<lceil>x\<rceil>)"


section \<open>Data model\<close>

text \<open>A diarized segment: the four fields transcribe copies from the provider's utterance.\<close>

record utterance =
  speaker :: string
  u_text :: string
  u_start :: int
  u_end :: int

text \<open>The value under the key \<open>analysis\<close> of a session.\<close>

record analysis_rec =
  summary :: pyval
  attributes :: pyval
  prompt_used :: string
  model :: string

text \<open>A value of \<open>session_store\<close>; the key \<open>analysis\<close> may be missing.\<close>

record session =
  filename :: string
  full_text :: string
  utterances :: "utterance list"
  duration_seconds :: real
  timestamp :: string
  analysis :: "analysis_rec option"

text \<open>What transcribe reads of the provider's transcript object.\<close>

datatype transcript_status = queued | processing | completed | error

record transcript =
  tr_status :: transcript_status
  tr_error :: string
  tr_utterances :: "utterance list option"
  tr_text :: "string option"
  tr_audio_duration :: "real option"

text \<open>A python-docx document, as the sequence of blocks export_docx adds to it.\<close>

datatype align = CENTER

record run =
  run_text :: string
  run_bold :: bool
  run_size :: "nat option"
  run_color :: "(nat \<times> nat \<times> nat) option"

datatype block =
    Heading string nat "align option"  \<comment> \<open>\<open>doc.add_heading(text, level)\<close> and its alignment\<close>
  | Paragraph "align option" "run list"  \<comment> \<open>\<open>doc.add_paragraph()\<close> and the runs added to it\<close>
  | Text_paragraph pyval  \<comment> \<open>\<open>doc.add_paragraph(v)\<close>\<close>
  | Page_break
  | Table string "string \<times> string" "(string \<times> pyval) list"
      \<comment> \<open>style, header cells, and per row the key and the value whose \<open>str\<close> fills the cell\<close>

record document =
  blocks :: "block list"
  normal_font_size :: "nat option"  \<comment> \<open>\<open>p.style.font.size\<close> of the default paragraph style\<close>

text \<open>Files under \<open>UPLOAD_DIR\<close> and \<open>OUTPUT_DIR\<close>, named by their last component.\<close>

datatype path = UPLOAD_DIR string | OUTPUT_DIR string

datatype file_content =
    Audio string
  | Docx document
  | Csv "pyval list list"  \<comment> \<open>the rows written by the csv writer, cell by cell\<close>

record state =
  session_store :: "string \<rightharpoonup> session"
  files :: "path \<rightharpoonup> file_content"

record environ =
  ASSEMBLYAI_API_KEY :: string  \<comment> \<open>the empty string when the variable is not set\<close>
  ANTHROPIC_API_KEY :: string

text \<open>
  Response bodies. \<open>Error_exn p e\<close> is \<open>{"error": p + str(e)}\<close>; \<open>Analysed_note\<close> is
  the body with an empty \<open>attributes\<close> dict and a \<open>note\<close>.
\<close>

datatype response_body =
    Error string
  | Error_exn string pyexn
  | Transcribed string string "utterance list" "real option" nat
      \<comment> \<open>session_id, text, utterances, duration_seconds, word_count\<close>
  | Analysed pyval pyval  \<comment> \<open>summary, attributes\<close>
  | Analysed_note string string  \<comment> \<open>summary, note\<close>
  | Send_file path string string  \<comment> \<open>path, download_name, mimetype\<close>

text \<open>
  A view function returns a status and a body, or lets an exception escape (\<open>Inl\<close>),
  together with the state it leaves.
\<close>

type_synonym response = "nat \<times> response_body"
type_synonym outcome = "(pyexn + response) \<times> state"

section \<open>get_clients\<close>

text \<open>\<open>Inl msg\<close> is \<open>ValueError(msg)\<close>.\<close>

definition get_clients :: "environ \<Rightarrow> string + unit" where
  "get_clients env =
     (if ASSEMBLYAI_API_KEY env = [] then
        Inl ''ASSEMBLYAI_API_KEY environment variable is not set''
      else if ANTHROPIC_API_KEY env = [] then
        Inl ''ANTHROPIC_API_KEY environment variable is not set''
      else Inr ())"

section \<open>transcribe\<close>

text \<open>The \<open>finally\<close> clause of transcribe.\<close>

definition cleanup :: "path \<Rightarrow> state \<Rightarrow> state" where
  "cleanup filepath s =
     (if files s filepath \<noteq> None then s\<lparr>files := (files s)(filepath := None)\<rparr> else s)"

text \<open>
  The body of the \<open>try\<close> block. \<open>transcriber\<close> is the provider call on the path,
  \<open>stamp\<close> is \<open>datetime.now().isoformat()\<close>; \<open>Inl e\<close> is an exception raised in the block.
\<close>

definition transcribe_try ::
  "(path \<Rightarrow> pyexn + transcript) \<Rightarrow> string \<Rightarrow> string \<Rightarrow> string \<Rightarrow> path \<Rightarrow> state \<Rightarrow> outcome"
where
  "transcribe_try transcriber stamp name fname filepath s =
     (case transcriber filepath of
        Inl e \<Rightarrow> (Inl e, s)
      | Inr t \<Rightarrow>
          if tr_status t = error then
            (Inr (500, Error (''Transcription failed: '' @ tr_error t)), s)
          else
            let us = (case tr_utterances t of
                        None \<Rightarrow> []
                      | Some l \<Rightarrow> map (\<lambda>u. \<lparr>speaker = speaker u, u_text = u_text u,
                                              u_start = u_start u, u_end = u_end u\<rparr>) l);
                ft = (case tr_text t of None \<Rightarrow> [] | Some x \<Rightarrow> x)
            in (case py_get (split_chr CHR ''.'' fname) 0 of
                  Inl e \<Rightarrow> (Inl e, s)
                | Inr session_id \<Rightarrow>
                    (Inr (200, Transcribed session_id ft us (tr_audio_duration t)
                                 (length (split_ws ft))),
                     s\<lparr>session_store := (session_store s)(session_id \<mapsto>
                          \<lparr>filename = name, full_text = ft, utterances = us,
                           duration_seconds =
                             (case tr_audio_duration t of
                                None \<Rightarrow> 0 | Some d \<Rightarrow> if d \<noteq> 0 then d else 0),
                           timestamp = stamp, analysis = None\<rparr>)\<rparr>)))"

text \<open>
  The view function. \<open>audio\<close> is the part \<open>audio\<close> of the request (its filename and
  bytes) when there is one, \<open>now\<close> is \<open>int(time.time())\<close>.
\<close>

definition scratch_name :: "int \<Rightarrow> string \<Rightarrow> string" where
  "scratch_name now name = str_int now @ ''_'' @ name"

definition transcribe ::
  "environ \<Rightarrow> int \<Rightarrow> string \<Rightarrow> (path \<Rightarrow> pyexn + transcript) \<Rightarrow> (string \<times> string) option
     \<Rightarrow> state \<Rightarrow> outcome"
where
  "transcribe env now stamp transcriber audio s =
     (case get_clients env of
        Inl msg \<Rightarrow> (Inr (400, Error msg), s)
      | Inr _ \<Rightarrow>
          (case audio of
             None \<Rightarrow> (Inr (400, Error ''No audio file provided''), s)
           | Some (name, bytes) \<Rightarrow>
               if name = [] then (Inr (400, Error ''No file selected''), s)
               else
                 let fname = scratch_name now name;
                     filepath = UPLOAD_DIR fname;
                     s1 = s\<lparr>files := (files s)(filepath \<mapsto> Audio bytes)\<rparr>;
                     (r, s2) = transcribe_try transcriber stamp name fname filepath s1;
                     r' = (case r of
                             Inl e \<Rightarrow> Inr (500, Error_exn ''Transcription error: '' e)
                           | Inr resp \<Rightarrow> Inr resp)
                 in (r', cleanup filepath s2)))"

section \<open>analyze\<close>

definition NL :: string where
  "NL = [CHR 0x0A]"

definition system_prompt :: string where
  \<open>system_prompt =
     ''You are an expert audio transcript analyst.'' @ NL @
     ''You will be given a transcript and an analysis prompt.'' @ NL @
     ''Respond with a JSON object containing two keys:'' @ NL @
     ''1. "summary": A free-text analysis based on the prompt.'' @ NL @
     ''2. "attributes": An object with key-value pairs of extracted attributes.'' @ NL @
     ''   Keys should be short column-friendly names (snake_case).'' @ NL @
     ''   Values should be strings or numbers.'' @ NL @ NL @
     ''Respond ONLY with valid JSON, no markdown fences.''\<close>

definition user_message :: "string \<Rightarrow> string \<Rightarrow> string" where
  \<open>user_message transcript_text analysis_prompt =
     ''## Transcript'' @ NL @ transcript_text @ NL @ NL @
     ''## Analysis Instructions'' @ NL @ analysis_prompt @ NL @ NL @
     ''Respond with JSON containing "summary" and "attributes" keys.''\<close>

text \<open>The session checks shared by analyze and the two exports.\<close>

definition valid_session :: "string option \<Rightarrow> state \<Rightarrow> (string \<times> session) option" where
  "valid_session session_id s =
     (case session_id of
        None \<Rightarrow> None
      | Some sid \<Rightarrow>
          if sid = [] then None
          else (case session_store s sid of None \<Rightarrow> None | Some sess \<Rightarrow> Some (sid, sess)))"

text \<open>\<open>session_store[session_id]["analysis"] = a\<close>, \<open>sess\<close> being the stored record.\<close>

definition set_analysis :: "string \<Rightarrow> session \<Rightarrow> analysis_rec \<Rightarrow> state \<Rightarrow> state" where
  "set_analysis sid sess a s =
     s\<lparr>session_store := (session_store s)(sid \<mapsto> sess\<lparr>analysis := Some a\<rparr>)\<rparr>"

text \<open>Lines 184 to 186: the handling of markdown fences.\<close>

definition strip_fence :: "string \<Rightarrow> pyexn + string" where
  "strip_fence response_text =
     (if startswith response_text ''```'' then
        (case py_get (split1 NL response_text) 1 of
           Inl e \<Rightarrow> Inl e
         | Inr t \<Rightarrow> py_get (rsplit1 ''```'' t) 0)
      else Inr response_text)"

text \<open>
  The two \<open>except\<close> clauses. \<open>response_text\<close> is the value of that variable when the
  exception was raised, \<open>None\<close> while it is not bound yet.
\<close>

definition analyze_except ::
  "pyexn \<Rightarrow> string option \<Rightarrow> string \<Rightarrow> session \<Rightarrow> string \<Rightarrow> string \<Rightarrow> state \<Rightarrow> outcome"
where
  "analyze_except e response_text sid sess analysis_prompt model_name s =
     (if e = JSONDecodeError then
        (case response_text of
           None \<Rightarrow> (Inl UnboundLocalError, s)
         | Some rt \<Rightarrow>
             (Inr (200, Analysed_note rt
                ''Claude did not return structured JSON. Try refining your prompt.''),
              set_analysis sid sess
                \<lparr>summary = PStr rt, attributes = PDict [],
                 prompt_used = analysis_prompt, model = model_name\<rparr> s))
      else (Inr (500, Error_exn ''Analysis error: '' e), s))"

text \<open>
  The \<open>try\<close> block with its handlers. \<open>claude\<close> is \<open>messages.create\<close> on the model
  name, the token limit, the system prompt and the user message, returning the texts of
  the content blocks; \<open>loads\<close> is \<open>json.loads\<close>, \<open>None\<close> when it raises JSONDecodeError.
\<close>

definition analyze_try ::
  "(string \<Rightarrow> nat \<Rightarrow> string \<Rightarrow> string \<Rightarrow> pyexn + string list) \<Rightarrow> (string \<Rightarrow> pyval option)
     \<Rightarrow> string \<Rightarrow> session \<Rightarrow> string \<Rightarrow> string \<Rightarrow> state \<Rightarrow> outcome"
where
  "analyze_try claude loads sid sess analysis_prompt model_name s =
     (case claude model_name 4096 system_prompt
             (user_message (full_text sess) analysis_prompt) of
        Inl e \<Rightarrow> analyze_except e None sid sess analysis_prompt model_name s
      | Inr content \<Rightarrow>
          (case py_get content 0 of
             Inl e \<Rightarrow> analyze_except e None sid sess analysis_prompt model_name s
           | Inr t \<Rightarrow>
               (case strip_fence (strip t) of
                  Inl e \<Rightarrow> analyze_except e (Some (strip t)) sid sess analysis_prompt model_name s
                | Inr response_text \<Rightarrow>
                    (case loads response_text of
                       None \<Rightarrow>
                         analyze_except JSONDecodeError (Some response_text) sid sess
                           analysis_prompt model_name s
                     | Some (PDict result) \<Rightarrow>
                         let summ = dict_get result ''summary'' (PStr []);
                             attrs = dict_get result ''attributes'' (PDict [])
                         in (Inr (200, Analysed summ attrs),
                             set_analysis sid sess
                               \<lparr>summary = summ, attributes = attrs,
                                prompt_used = analysis_prompt, model = model_name\<rparr> s)
                     | Some _ \<Rightarrow>
                         analyze_except AttributeError (Some response_text) sid sess
                           analysis_prompt model_name s))))"

record analyze_request =
  req_session_id :: "string option"
  req_prompt :: "string option"
  req_model :: "string option"

definition analyze ::
  "environ \<Rightarrow> (string \<Rightarrow> nat \<Rightarrow> string \<Rightarrow> string \<Rightarrow> pyexn + string list)
     \<Rightarrow> (string \<Rightarrow> pyval option) \<Rightarrow> analyze_request \<Rightarrow> state \<Rightarrow> outcome"
where
  "analyze env claude loads data s =
     (case get_clients env of
        Inl msg \<Rightarrow> (Inr (400, Error msg), s)
      | Inr _ \<Rightarrow>
          let analysis_prompt = (case req_prompt data of None \<Rightarrow> [] | Some p \<Rightarrow> p);
              model_name = (case req_model data of
                              None \<Rightarrow> ''claude-sonnet-4-5-20250929'' | Some m \<Rightarrow> m)
          in (case valid_session (req_session_id data) s of
                None \<Rightarrow>
                  (Inr (400, Error ''Invalid session. Please transcribe audio first.''), s)
              | Some (sid, sess) \<Rightarrow>
                  if strip analysis_prompt = [] then
                    (Inr (400, Error ''Analysis prompt cannot be empty.''), s)
                  else analyze_try claude loads sid sess analysis_prompt model_name s))"

section \<open>export_docx\<close>

text \<open>
  What python-docx does with the texts it is given. A run's text is written to the XML
  tree, which refuses (ValueError) a string holding a control character other than tab,
  line feed and carriage return.
\<close>

definition xml_invalid :: "char list" where
  "xml_invalid =
     [CHR 0x00, CHR 0x01, CHR 0x02, CHR 0x03, CHR 0x04, CHR 0x05, CHR 0x06, CHR 0x07,
      CHR 0x08, CHR 0x0B, CHR 0x0C, CHR 0x0E, CHR 0x0F, CHR 0x10, CHR 0x11, CHR 0x12,
      CHR 0x13, CHR 0x14, CHR 0x15, CHR 0x16, CHR 0x17, CHR 0x18, CHR 0x19, CHR 0x1A,
      CHR 0x1B, CHR 0x1C, CHR 0x1D, CHR 0x1E, CHR 0x1F]"

definition xml_ok :: "string \<Rightarrow> bool" where
  "xml_ok t = (\<forall>c \<in> set t. c \<notin> set xml_invalid)"

text \<open>\<open>p.add_run(t)\<close> followed by the settings of \<open>bold\<close>, \<open>font.size\<close> and \<open>font.color.rgb\<close>.\<close>

definition add_run ::
  "string \<Rightarrow> bool \<Rightarrow> nat option \<Rightarrow> (nat \<times> nat \<times> nat) option \<Rightarrow> pyexn + run" where
  "add_run t b sz col =
     (if xml_ok t then Inr \<lparr>run_text = t, run_bold = b, run_size = sz, run_color = col\<rparr>
      else Inl ValueError)"

text \<open>
  Setting a run's text to a value that is no string: the library iterates the value, asks
  of each item whether it is a tab or part of \<open>"\r\n"\<close> (TypeError for an item that is no
  string), and writes the items gathered so far at each such item and at the end.
\<close>

fun append_items :: "pyval list \<Rightarrow> string \<Rightarrow> pyexn option" where
  "append_items [] bfr = (if xml_ok bfr then None else Some ValueError)"
| "append_items (PStr t # xs) bfr =
     (if t = [CHR 0x09] \<or> t \<in> set [[], [CHR 0x0D], [CHR 0x0A], [CHR 0x0D, CHR 0x0A]] then
        (if xml_ok bfr then append_items xs [] else Some ValueError)
      else append_items xs (bfr @ t))"
| "append_items (v # xs) bfr = Some TypeError"

text \<open>\<open>doc.add_paragraph(v)\<close>: no run is added for a falsy value.\<close>

definition add_paragraph :: "pyval \<Rightarrow> pyexn + block" where
  "add_paragraph v =
     (if \<not> truthy v then Inr (Text_paragraph v)
      else
        (case v of
           PStr t \<Rightarrow> if xml_ok t then Inr (Text_paragraph v) else Inl ValueError
         | PList xs \<Rightarrow>
             (case append_items xs [] of None \<Rightarrow> Inr (Text_paragraph v) | Some e \<Rightarrow> Inl e)
         | PDict kvs \<Rightarrow>
             (case append_items (map (PStr \<circ> fst) kvs) [] of
                None \<Rightarrow> Inr (Text_paragraph v)
              | Some e \<Rightarrow> Inl e)
         | _ \<Rightarrow> Inl TypeError))"

text \<open>
  The cells of the attribute rows hold \<open>str(key)\<close> and \<open>str(val)\<close>; the \<open>str\<close> of a value
  that is no string has no control character.
\<close>

definition cell_texts_ok :: "(string \<times> pyval) list \<Rightarrow> bool" where
  "cell_texts_ok kvs =
     list_all (\<lambda>(k, v). xml_ok k \<and> (case v of PStr t \<Rightarrow> xml_ok t | _ \<Rightarrow> True)) kvs"

text \<open>The results of a sequence of calls, up to the first that raises.\<close>

fun collect :: "('e + 'a) list \<Rightarrow> 'e + 'a list" where
  "collect [] = Inr []"
| "collect (x # xs) =
     (case x of
        Inl e \<Rightarrow> Inl e
      | Inr a \<Rightarrow> (case collect xs of Inl e \<Rightarrow> Inl e | Inr as \<Rightarrow> Inr (a # as)))"

text \<open>
  Lines 240 to 252. \<open>fdiv\<close> and \<open>fmod\<close> are Python's \<open>//\<close> and \<open>%\<close> on the duration's
  number type.
\<close>

definition meta_paragraph ::
  "(real \<Rightarrow> real \<Rightarrow> real) \<Rightarrow> (real \<Rightarrow> real \<Rightarrow> real) \<Rightarrow> session \<Rightarrow> pyexn + block" where
  "meta_paragraph fdiv fmod sess =
     (case add_run (''File: '' @ filename sess @ ''  |  Date: '' @ take 10 (timestamp sess))
             False (Some 10) (Some (128, 128, 128)) of
        Inl e \<Rightarrow> Inl e
      | Inr file_run \<Rightarrow>
          if duration_seconds sess \<noteq> 0 then
            (case add_run (''  |  Duration: ''
                     @ str_int (py_int (fdiv (duration_seconds sess) 60)) @ ''m ''
                     @ str_int (py_int (fmod (duration_seconds sess) 60)) @ ''s'')
                    False (Some 10) (Some (128, 128, 128)) of
               Inl e \<Rightarrow> Inl e
             | Inr dur_run \<Rightarrow> Inr (Paragraph (Some CENTER) [file_run, dur_run]))
          else Inr (Paragraph (Some CENTER) [file_run]))"

definition speaker_paragraph :: "utterance \<Rightarrow> pyexn + block" where
  "speaker_paragraph u =
     (case add_run (''Speaker '' @ speaker u @ '': '') True (Some 11) (Some (44, 62, 80)) of
        Inl e \<Rightarrow> Inl e
      | Inr speaker_run \<Rightarrow>
          (case add_run (u_text u) False (Some 11) None of
             Inl e \<Rightarrow> Inl e
           | Inr text_run \<Rightarrow> Inr (Paragraph None [speaker_run, text_run])))"

text \<open>Lines 259 to 271.\<close>

definition transcript_body :: "session \<Rightarrow> pyexn + block list" where
  "transcript_body sess =
     (if utterances sess \<noteq> [] then collect (map speaker_paragraph (utterances sess))
      else (case add_paragraph (PStr (full_text sess)) of
              Inl e \<Rightarrow> Inl e
            | Inr p \<Rightarrow> Inr [p]))"

text \<open>Lines 274 to 302; iterating the items of a value that is no dict raises.\<close>

definition analysis_section :: "session \<Rightarrow> pyexn + block list" where
  "analysis_section sess =
     (case analysis sess of
        None \<Rightarrow> Inr []
      | Some a \<Rightarrow>
          (case add_run (prompt_used a) False (Some 10) (Some (100, 100, 100)) of
             Inl e \<Rightarrow> Inl e
           | Inr prompt_text \<Rightarrow>
               (case add_paragraph (summary a) of
                  Inl e \<Rightarrow> Inl e
                | Inr summary_p \<Rightarrow>
                    let sec =
                      [Page_break, Heading ''Analysis'' 1 None,
                       Paragraph None
                         [\<lparr>run_text = ''Prompt used: '', run_bold = True, run_size = Some 10,
                            run_color = None\<rparr>,
                          prompt_text],
                       Text_paragraph (PStr []), Heading ''Summary'' 2 None, summary_p]
                    in if truthy (attributes a) then
                         (case attributes a of
                            PDict kvs \<Rightarrow>
                              if cell_texts_ok kvs then
                                Inr (sec @ [Heading ''Extracted Attributes'' 2 None,
                                            Table ''Light Grid Accent 1''
                                              (''Attribute'', ''Value'') kvs])
                              else Inl ValueError
                          | _ \<Rightarrow> Inl AttributeError)
                       else Inr sec)))"

definition docx_mimetype :: string where
  "docx_mimetype = ''application/vnd.openxmlformats-officedocument.wordprocessingml.document''"

text \<open>The view function; an exception raised while the document is built escapes it, and
  nothing is saved.\<close>

definition export_docx ::
  "(real \<Rightarrow> real \<Rightarrow> real) \<Rightarrow> (real \<Rightarrow> real \<Rightarrow> real) \<Rightarrow> string option \<Rightarrow> state \<Rightarrow> outcome" where
  "export_docx fdiv fmod session_id s =
     (case valid_session session_id s of
        None \<Rightarrow> (Inr (400, Error ''Invalid session.''), s)
      | Some (sid, sess) \<Rightarrow>
          (case meta_paragraph fdiv fmod sess of
             Inl e \<Rightarrow> (Inl e, s)
           | Inr meta \<Rightarrow>
               (case transcript_body sess of
                  Inl e \<Rightarrow> (Inl e, s)
                | Inr body \<Rightarrow>
                    (case analysis_section sess of
                       Inl e \<Rightarrow> (Inl e, s)
                     | Inr sec \<Rightarrow>
                         let doc = \<lparr>blocks =
                                      [Heading ''Audio Transcript'' 0 (Some CENTER), meta,
                                       Text_paragraph (PStr []), Heading ''Transcript'' 1 None]
                                      @ body @ sec,
                                    normal_font_size =
                                      (if utterances sess = [] \<or> analysis sess \<noteq> None
                                       then Some 11 else None)\<rparr>;
                             output_path = OUTPUT_DIR (''transcript_'' @ sid @ ''.docx'');
                             s' = s\<lparr>files := (files s)(output_path \<mapsto> Docx doc)\<rparr>
                         in (case py_get (rsplit1 ''.'' (filename sess)) 0 of
                               Inl e \<Rightarrow> (Inl e, s')
                             | Inr base \<Rightarrow>
                                 (Inr (200, Send_file output_path
                                              (''transcript_'' @ base @ ''.docx'')
                                              docx_mimetype), s'))))))"

section \<open>export_csv\<close>




section \<open>Derived notions\<close>

text \<open>\<open>s.rsplit(".", 1)[0]\<close>: the name without its final extension, as the exports
  compute it for the download name.\<close>

definition without_final_extension :: "string \<Rightarrow> string" where
  "without_final_extension s = (case rfind_sep ''.'' s of None \<Rightarrow> s | Some (a, b) \<Rightarrow> a)"

text \<open>The record transcribe stores for a transcript that is not in the error status.\<close>

definition stored_session :: "string \<Rightarrow> string \<Rightarrow> transcript \<Rightarrow> session" where
  "stored_session name stamp t =
     \<lparr>filename = name,
      full_text = (case tr_text t of None \<Rightarrow> [] | Some x \<Rightarrow> x),
      utterances = (case tr_utterances t of None \<Rightarrow> [] | Some l \<Rightarrow> l),
      duration_seconds = (case tr_audio_duration t of None \<Rightarrow> 0 | Some d \<Rightarrow> d),
      timestamp = stamp, analysis = None\<rparr>"

text \<open>The prompt and the model name analyze reads from the request, with their defaults,
  and the call it makes to the provider.\<close>

definition request_prompt :: "analyze_request \<Rightarrow> string" where
  "request_prompt data = (case req_prompt data of None \<Rightarrow> [] | Some p \<Rightarrow> p)"

definition request_model :: "analyze_request \<Rightarrow> string" where
  "request_model data =
     (case req_model data of None \<Rightarrow> ''claude-sonnet-4-5-20250929'' | Some m \<Rightarrow> m)"

definition provider_call ::
  "(string \<Rightarrow> nat \<Rightarrow> string \<Rightarrow> string \<Rightarrow> pyexn + string list) \<Rightarrow> analyze_request \<Rightarrow> session
     \<Rightarrow> pyexn + string list" where
  "provider_call claude data sess =
     claude (request_model data) 4096 system_prompt
       (user_message (full_text sess) (request_prompt data))"

text \<open>The note of the degraded answer.\<close>

definition json_note :: string where
  "json_note = ''Claude did not return structured JSON. Try refining your prompt.''"



definition docx_path :: "string \<Rightarrow> path" where
  "docx_path sid = OUTPUT_DIR (''transcript_'' @ sid @ ''.docx'')"

text \<open>
  Exact floor division and remainder on reals. They stand for Python's \<open>//\<close> and \<open>%\<close> in
  the examples; \<open>whole_seconds\<close> says of two operators that, at a duration, the integer
  parts of their results are the quotient and the remainder of the whole seconds by 60.
\<close>

definition exact_floordiv :: "real \<Rightarrow> real \<Rightarrow> real" where
  "exact_floordiv x m = of_int \<lfloor>x / m\<rfloor>"

definition exact_mod :: "real \<Rightarrow> real \<Rightarrow> real" where
  "exact_mod x m = x - m * of_int \<lfloor>x / m\<rfloor>"


text \<open>
  The paragraph of an utterance, a bold run \<open>Speaker {label}: \<close> and a run with the text,
  and the run that ends the metadata line.
\<close>

definition speaker_block :: "utterance \<Rightarrow> block" where
  "speaker_block u =
     Paragraph None
       [\<lparr>run_text = ''Speaker '' @ speaker u @ '': '', run_bold = True,
          run_size = Some 11, run_color = Some (44, 62, 80)\<rparr>,
        \<lparr>run_text = u_text u, run_bold = False, run_size = Some 11, run_color = None\<rparr>]"

definition duration_run :: "int \<Rightarrow> int \<Rightarrow> run" where
  "duration_run minutes seconds =
     \<lparr>run_text = ''  |  Duration: '' @ str_int minutes @ ''m '' @ str_int seconds @ ''s'',
      run_bold = False, run_size = Some 10, run_color = Some (128, 128, 128)\<rparr>"

section \<open>Example data\<close>

definition example_env :: environ where
  "example_env = \<lparr>ASSEMBLYAI_API_KEY = ''key-a'', ANTHROPIC_API_KEY = ''key-b''\<rparr>"

definition empty_state :: state where
  "empty_state = \<lparr>session_store = Map.empty, files = Map.empty\<rparr>"

text \<open>Transcripts: the one of the specification's example, one in the error status, one
  without text and duration.\<close>

definition example_transcript :: transcript where
  "example_transcript =
     \<lparr>tr_status = completed, tr_error = [], tr_utterances = None,
      tr_text = Some ''hello world'', tr_audio_duration = Some 65.4\<rparr>"

definition failed_transcript :: transcript where
  "failed_transcript =
     \<lparr>tr_status = error, tr_error = ''audio is unreadable'', tr_utterances = None,
      tr_text = None, tr_audio_duration = None\<rparr>"

definition silent_transcript :: transcript where
  "silent_transcript =
     \<lparr>tr_status = completed, tr_error = [], tr_utterances = None,
      tr_text = None, tr_audio_duration = None\<rparr>"

text \<open>Sessions and states holding them under the identifier \<open>1700000000_talk\<close>: without
  analysis, with an analysis, with two utterances, and with an attribute named like a
  fixed column.\<close>

definition example_session :: session where
  "example_session =
     \<lparr>filename = ''talk.wav'', full_text = ''hello world'', utterances = [],
      duration_seconds = 65.4, timestamp = ''2026-01-01T10:00:00'', analysis = None\<rparr>"

definition plain_state :: state where
  "plain_state =
     \<lparr>session_store = [''1700000000_talk'' \<mapsto> example_session], files = Map.empty\<rparr>"

definition analysed_session :: session where
  "analysed_session =
     example_session\<lparr>analysis := Some
       \<lparr>summary = PStr ''Two people greet.'', attributes = PDict [(''topic'', PStr ''greeting'')],
        prompt_used = ''What is the topic?'', model = ''claude-sonnet-4-5-20250929''\<rparr>\<rparr>"

definition analysed_state :: state where
  "analysed_state =
     \<lparr>session_store = [''1700000000_talk'' \<mapsto> analysed_session], files = Map.empty\<rparr>"

definition dialogue_session :: session where
  "dialogue_session =
     \<lparr>filename = ''talk.wav'', full_text = ''hello world'',
      utterances = [\<lparr>speaker = ''A'', u_text = ''hello'', u_start = 0, u_end = 400\<rparr>,
                    \<lparr>speaker = ''B'', u_text = ''world'', u_start = 450, u_end = 900\<rparr>],
      duration_seconds = 65.4, timestamp = ''2026-01-01T10:00:00'', analysis = None\<rparr>"

definition dialogue_state :: state where
  "dialogue_state =
     \<lparr>session_store = [''1700000000_talk'' \<mapsto> dialogue_session], files = Map.empty\<rparr>"



definition example_request :: analyze_request where
  "example_request =
     \<lparr>req_session_id = Some ''1700000000_talk'', req_prompt = Some ''Rate the sentiment'',
      req_model = None\<rparr>"

text \<open>Provider texts, and \<open>json.loads\<close> on them: \<open>example_json\<close> is the one JSON document
  among the texts the examples use, the others are prose and are rejected.\<close>

definition example_json :: string where
  \<open>example_json = ''{"summary": "A greeting.", "attributes": {"sentiment": "positive"}}''\<close>

definition example_loads :: "string \<Rightarrow> pyval option" where
  "example_loads x =
     (if x = example_json then
        Some (PDict [(''summary'', PStr ''A greeting.''),
                     (''attributes'', PDict [(''sentiment'', PStr ''positive'')])])
      else None)"

definition prose_line :: string where
  "prose_line = ''The caller sounds happy.'' @ NL"

definition fenced_prose :: string where
  "fenced_prose = ''```'' @ NL @ prose_line @ ''```''"

text \<open>
  Sessions whose export goes wrong or surprises: a control character in the text, one in
  the file name, and an attribute named \<open>word_count\<close>.
\<close>

definition ctrl_session :: session where
  "ctrl_session = example_session\<lparr>full_text := [CHR ''a'', CHR 0x01, CHR ''b'']\<rparr>"

definition ctrl_state :: state where
  "ctrl_state =
     \<lparr>session_store = [''1700000000_talk'' \<mapsto> ctrl_session], files = Map.empty\<rparr>"





section \<open>Properties\<close>

subsection \<open>String helpers\<close>

lemma split_chr_acc_hd:
  "\<exists>rest. split_chr_acc sep w s = (w @ takeWhile (\<lambda>c. c \<noteq> sep) s) # rest"
proof (induction s arbitrary: w)
  case Nil
  show ?case by simp
next
  case (Cons a s)
  show ?case
  proof (cases "a = sep")
    case True
    then show ?thesis by simp
  next
    case False
    with Cons [of "w @ [a]"] show ?thesis by simp
  qed
qed

lemma split_chr_0: "py_get (split_chr sep s) 0 = Inr (takeWhile (\<lambda>c. c \<noteq> sep) s)"
proof -
  obtain rest where "split_chr_acc sep [] s = takeWhile (\<lambda>c. c \<noteq> sep) s # rest"
    using split_chr_acc_hd [of sep "[]" s] by auto
  then show ?thesis by (simp add: py_get_def split_chr_def)
qed

lemma str_nat_numeral:
  "str_nat (numeral k) =
     (if numeral k < (10::nat) then [''0123456789'' ! numeral k]
      else str_nat (numeral k div 10) @ [''0123456789'' ! (numeral k mod 10)])"
  by (rule str_nat.simps)

lemma str_nat_small: "str_nat 0 = ''0''" "str_nat 1 = ''1''" "str_nat (Suc 0) = ''1''"
  by (simp_all add: str_nat.simps [of 0] str_nat.simps [of 1] str_nat.simps [of "Suc 0"])

lemmas str_int_eval = str_int_def str_nat_numeral str_nat_small

lemma rfind_dot_None: "CHR ''.'' \<notin> set s \<Longrightarrow> rfind_sep ''.'' s = None"
  by (induction s) auto

lemma one_dot_extension:
  "count_list s CHR ''.'' \<le> 1 \<Longrightarrow>
     without_final_extension s = takeWhile (\<lambda>c. c \<noteq> CHR ''.'') s"
proof (induction s)
  case Nil
  show ?case by (simp add: without_final_extension_def)
next
  case (Cons c cs)
  show ?case
  proof (cases "c = CHR ''.''")
    case True
    with Cons.prems have "count_list cs CHR ''.'' = 0" by simp
    then have "CHR ''.'' \<notin> set cs" by (simp add: count_list_0_iff)
    then have "rfind_sep ''.'' cs = None" by (rule rfind_dot_None)
    with True show ?thesis by (simp add: without_final_extension_def)
  next
    case False
    with Cons.prems have "count_list cs CHR ''.'' \<le> 1" by simp
    then have "without_final_extension cs = takeWhile (\<lambda>c. c \<noteq> CHR ''.'') cs"
      by (rule Cons.IH)
    with False show ?thesis
      by (auto simp add: without_final_extension_def split: option.splits)
  qed
qed

subsection \<open>transcribe\<close>

lemma copy_utterances: "map (\<lambda>u. \<lparr>speaker = speaker u, u_text = u_text u,
                                              u_start = u_start u, u_end = u_end u\<rparr>) l = l"
  by (induction l) auto

lemma transcribe_try_ok:
  assumes "transcriber filepath = Inr t" "tr_status t \<noteq> error"
  shows "transcribe_try transcriber stamp name fname filepath s =
     (Inr (200, Transcribed (takeWhile (\<lambda>c. c \<noteq> CHR ''.'') fname)
                  (full_text (stored_session name stamp t))
                  (utterances (stored_session name stamp t))
                  (tr_audio_duration t)
                  (length (split_ws (full_text (stored_session name stamp t))))),
      s\<lparr>session_store := (session_store s)(takeWhile (\<lambda>c. c \<noteq> CHR ''.'') fname \<mapsto>
            stored_session name stamp t)\<rparr>)"
  using assms
  by (simp add: transcribe_try_def split_chr_0 stored_session_def copy_utterances Let_def
           split: option.splits)

lemma transcribe_ok:
  assumes "get_clients env = Inr ()" "name \<noteq> []"
    "transcriber (UPLOAD_DIR (scratch_name now name)) = Inr t" "tr_status t \<noteq> error"
  shows "transcribe env now stamp transcriber (Some (name, bytes)) s =
     (Inr (200, Transcribed (takeWhile (\<lambda>c. c \<noteq> CHR ''.'') (scratch_name now name))
                  (full_text (stored_session name stamp t))
                  (utterances (stored_session name stamp t))
                  (tr_audio_duration t)
                  (length (split_ws (full_text (stored_session name stamp t))))),
      s\<lparr>session_store := (session_store s)(takeWhile (\<lambda>c. c \<noteq> CHR ''.'') (scratch_name now name) \<mapsto>
            stored_session name stamp t),
        files := (files s)(UPLOAD_DIR (scratch_name now name) := None)\<rparr>)"
  using assms
  by (simp add: transcribe_def transcribe_try_ok cleanup_def Let_def)

lemma files_transcribe_try:
  "files (snd (transcribe_try transcriber stamp name fname filepath s)) = files s"
  by (simp add: transcribe_try_def Let_def split: sum.splits option.splits)

lemma transcribed_only_on_success:
  assumes "transcribe env now stamp transcriber (Some (name, bytes)) s =
             (Inr (code, Transcribed sid txt us d wc), s')"
  shows "get_clients env = Inr () \<and> name \<noteq> [] \<and>
         (\<exists>t. transcriber (UPLOAD_DIR (scratch_name now name)) = Inr t \<and> tr_status t \<noteq> error)"
  using assms
  by (auto simp add: transcribe_def transcribe_try_def Let_def
           split: sum.splits if_splits prod.splits option.splits)

lemma example_env_ok: "get_clients example_env = Inr ()"
  by (simp add: get_clients_def example_env_def)

lemma example_scratch_name:
  "scratch_name 1700000000 ''my.talk.wav'' = ''1700000000_my.talk.wav''"
  "scratch_name 1700000000 ''talk.wav'' = ''1700000000_talk.wav''"
  by (simp_all add: scratch_name_def str_int_eval)

lemma example_transcribe:
  "transcribe example_env 1700000000 ''2026-01-01T10:00:00'' (\<lambda>p. Inr example_transcript)
     (Some (''talk.wav'', ''RIFF'')) empty_state =
   (Inr (200, Transcribed ''1700000000_talk'' ''hello world'' [] (Some 65.4) 2),
    empty_state\<lparr>session_store := [''1700000000_talk'' \<mapsto>
       \<lparr>filename = ''talk.wav'', full_text = ''hello world'', utterances = [],
        duration_seconds = 65.4, timestamp = ''2026-01-01T10:00:00'', analysis = None\<rparr>]\<rparr>)"
  by (simp add: transcribe_ok [OF example_env_ok, where t = example_transcript]
       example_scratch_name example_transcript_def stored_session_def split_ws_def isspace_def
       empty_state_def)

text \<open>
  C1 (as amended). Whenever transcribe returns a session identifier, that identifier is
  the scratch filename cut at its first dot, the session record is stored under it, and it
  is the scratch filename without its final extension when that name has at most one dot.
\<close>

theorem session_id_cut_at_first_dot:
  assumes "transcribe env now stamp transcriber (Some (name, bytes)) s =
             (Inr (code, Transcribed sid txt us d wc), s')"
  shows "sid = takeWhile (\<lambda>c. c \<noteq> CHR ''.'') (scratch_name now name) \<and>
         (\<exists>sess. session_store s' sid = Some sess \<and> filename sess = name) \<and>
         (count_list (scratch_name now name) CHR ''.'' \<le> 1 \<longrightarrow>
            sid = without_final_extension (scratch_name now name))"
proof -
  from transcribed_only_on_success [OF assms] obtain t where
    h: "get_clients env = Inr ()" "name \<noteq> []"
       "transcriber (UPLOAD_DIR (scratch_name now name)) = Inr t" "tr_status t \<noteq> error"
    by blast
  note ok = transcribe_ok [where env = env and name = name and transcriber = transcriber
      and now = now and t = t and stamp = stamp and bytes = bytes and s = s]
  from ok h assms
  have sid: "sid = takeWhile (\<lambda>c. c \<noteq> CHR ''.'') (scratch_name now name)"
    and s': "s' = s\<lparr>session_store := (session_store s)(sid \<mapsto> stored_session name stamp t),
                    files := (files s)(UPLOAD_DIR (scratch_name now name) := None)\<rparr>"
    by simp_all
  from s' have "session_store s' sid = Some (stored_session name stamp t)" by simp
  moreover have "filename (stored_session name stamp t) = name"
    by (simp add: stored_session_def)
  ultimately show ?thesis using sid by (simp add: one_dot_extension)
qed

theorem session_id_cut_at_first_dot_witness:
  "transcribe example_env 1700000000 ''2026-01-01T10:00:00'' (\<lambda>p. Inr example_transcript)
     (Some (''talk.wav'', ''RIFF'')) empty_state =
   (Inr (200, Transcribed ''1700000000_talk'' ''hello world'' [] (Some 65.4) 2),
    empty_state\<lparr>session_store := [''1700000000_talk'' \<mapsto>
       \<lparr>filename = ''talk.wav'', full_text = ''hello world'', utterances = [],
        duration_seconds = 65.4, timestamp = ''2026-01-01T10:00:00'', analysis = None\<rparr>]\<rparr>) \<and>
   ''1700000000_talk'' = takeWhile (\<lambda>c. c \<noteq> CHR ''.'') ''1700000000_talk.wav'' \<and>
   ''1700000000_talk'' = without_final_extension ''1700000000_talk.wav''"
  using session_id_cut_at_first_dot [OF example_transcribe] example_transcribe
  by (simp add: example_scratch_name)

text \<open>
  C1 as stated fails: for the upload \<open>my.talk.wav\<close> the identifier returned is
  \<open>1700000000_my\<close>, while the scratch filename without its final extension is
  \<open>1700000000_my.talk\<close>.
\<close>

theorem session_id_final_extension_counterexample:
  "fst (transcribe example_env 1700000000 ''2026-01-01T10:00:00'' (\<lambda>p. Inr example_transcript)
     (Some (''my.talk.wav'', ''RIFF'')) empty_state) =
     Inr (200, Transcribed ''1700000000_my'' ''hello world'' [] (Some 65.4) 2) \<and>
   without_final_extension (scratch_name 1700000000 ''my.talk.wav'') = ''1700000000_my.talk''"
  by (simp add: transcribe_ok [OF example_env_ok, where t = example_transcript]
       example_scratch_name example_transcript_def stored_session_def split_ws_def isspace_def
       without_final_extension_def)

text \<open>
  C2. A request that gets as far as saving the upload leaves no file at the scratch path,
  whatever the provider call does: return a transcript, return one with the error status,
  or raise.
\<close>

theorem scratch_file_removed:
  assumes "get_clients env = Inr ()" "name \<noteq> []"
  shows "files (snd (transcribe env now stamp transcriber (Some (name, bytes)) s))
           (UPLOAD_DIR (scratch_name now name)) = None"
proof -
  let ?fp = "UPLOAD_DIR (scratch_name now name)"
  let ?s1 = "s\<lparr>files := (files s)(?fp \<mapsto> Audio bytes)\<rparr>"
  obtain r s2 where t: "transcribe_try transcriber stamp name (scratch_name now name) ?fp ?s1 = (r, s2)"
    by (cases "transcribe_try transcriber stamp name (scratch_name now name) ?fp ?s1") 
  have "files s2 = files ?s1"
    using files_transcribe_try [of transcriber stamp name "scratch_name now name" ?fp ?s1] t by simp
  then have "files (cleanup ?fp s2) ?fp = None"
    by (simp add: cleanup_def)
  then show ?thesis using assms t
    by (simp add: transcribe_def Let_def)
qed

theorem scratch_file_removed_witness:
  "get_clients example_env = Inr () \<and> ''talk.wav'' \<noteq> [] \<and>
   files (snd (transcribe example_env 1700000000 ''2026-01-01T10:00:00''
                 (\<lambda>p. Inr example_transcript) (Some (''talk.wav'', ''RIFF'')) empty_state))
     (UPLOAD_DIR ''1700000000_talk.wav'') = None \<and>
   files (snd (transcribe example_env 1700000000 ''2026-01-01T10:00:00''
                 (\<lambda>p. Inr failed_transcript) (Some (''talk.wav'', ''RIFF'')) empty_state))
     (UPLOAD_DIR ''1700000000_talk.wav'') = None \<and>
   files (snd (transcribe example_env 1700000000 ''2026-01-01T10:00:00''
                 (\<lambda>p. Inl (Raised ''connection reset'')) (Some (''talk.wav'', ''RIFF''))
                 empty_state))
     (UPLOAD_DIR ''1700000000_talk.wav'') = None"
  using scratch_file_removed [OF example_env_ok, of "''talk.wav''" 1700000000
          "''2026-01-01T10:00:00''" "\<lambda>p. Inr example_transcript" "''RIFF''" empty_state]
        scratch_file_removed [OF example_env_ok, of "''talk.wav''" 1700000000
          "''2026-01-01T10:00:00''" "\<lambda>p. Inr failed_transcript" "''RIFF''" empty_state]
        scratch_file_removed [OF example_env_ok, of "''talk.wav''" 1700000000
          "''2026-01-01T10:00:00''" "\<lambda>p. Inl (Raised ''connection reset'')" "''RIFF''"
          empty_state]
  by (simp add: example_env_ok example_scratch_name)

text \<open>
  C10. When the provider reports no audio duration on a successful transcription, the
  response carries the missing value while the stored session has \<open>duration_seconds\<close> 0.
\<close>

theorem null_duration_response_zero_stored:
  assumes "get_clients env = Inr ()" "name \<noteq> []"
    "transcriber (UPLOAD_DIR (scratch_name now name)) = Inr t" "tr_status t \<noteq> error"
    "tr_audio_duration t = None"
  shows "\<exists>sid txt us wc s' sess.
           transcribe env now stamp transcriber (Some (name, bytes)) s =
             (Inr (200, Transcribed sid txt us None wc), s') \<and>
           session_store s' sid = Some sess \<and> duration_seconds sess = 0"
proof -
  note ok = transcribe_ok [where env = env and name = name and transcriber = transcriber
      and now = now and t = t and stamp = stamp and bytes = bytes and s = s]
  have "duration_seconds (stored_session name stamp t) = 0"
    using assms(5) by (simp add: stored_session_def)
  with ok assms show ?thesis by simp
qed

theorem null_duration_response_zero_stored_witness:
  "get_clients example_env = Inr () \<and> ''talk.wav'' \<noteq> [] \<and>
   tr_status silent_transcript \<noteq> error \<and> tr_audio_duration silent_transcript = None \<and>
   (\<exists>sid txt us wc s' sess.
      transcribe example_env 1700000000 ''2026-01-01T10:00:00'' (\<lambda>p. Inr silent_transcript)
        (Some (''talk.wav'', ''RIFF'')) empty_state =
        (Inr (200, Transcribed sid txt us None wc), s') \<and>
      session_store s' sid = Some sess \<and> duration_seconds sess = 0)"
proof -
  have h: "tr_status silent_transcript \<noteq> error" "tr_audio_duration silent_transcript = None"
    by (simp_all add: silent_transcript_def)
  from null_duration_response_zero_stored [where env = example_env and name = "''talk.wav''"
         and transcriber = "\<lambda>p. Inr silent_transcript" and t = silent_transcript
         and now = 1700000000 and stamp = "''2026-01-01T10:00:00''" and bytes = "''RIFF''"
         and s = empty_state]
  show ?thesis using h example_env_ok by simp
qed

subsection \<open>analyze\<close>

lemma analyze_ready:
  assumes "get_clients env = Inr ()" "valid_session (req_session_id data) s = Some (sid, sess)"
    "strip (request_prompt data) \<noteq> []"
  shows "analyze env claude loads data s =
           analyze_try claude loads sid sess (request_prompt data) (request_model data) s"
  using assms by (simp add: analyze_def request_prompt_def request_model_def Let_def)

lemma analyze_not_ready:
  assumes "get_clients env \<noteq> Inr () \<or> valid_session (req_session_id data) s = None \<or>
    strip (request_prompt data) = []"
  shows "snd (analyze env claude loads data s) = s \<and>
         (\<exists>msg. fst (analyze env claude loads data s) = Inr (400, Error msg))"
  using assms
  by (auto simp add: analyze_def request_prompt_def request_model_def Let_def
      split: sum.splits option.splits)

text \<open>
  C5. On an existing session and with an instruction that is not blank, a provider call
  that raises anything but a JSON decoding error makes analyze answer 500 with the
  exception's message, and the whole state, the session with any earlier analysis
  included, is what it was.
\<close>

theorem provider_failure_leaves_state:
  assumes "get_clients env = Inr ()" "valid_session (req_session_id data) s = Some (sid, sess)"
    "strip (request_prompt data) \<noteq> []"
    "provider_call claude data sess = Inl e" "e \<noteq> JSONDecodeError"
  shows "analyze env claude loads data s = (Inr (500, Error_exn ''Analysis error: '' e), s)"
  using assms(4,5)
  by (simp add: analyze_ready [OF assms(1-3)] analyze_try_def analyze_except_def
      provider_call_def)

lemma find_sep_NL_None: "CHR 0x0A \<notin> set x \<Longrightarrow> find_sep NL x = None"
  by (induction x) (auto simp add: NL_def)

lemma strip_fence_no_newline:
  assumes "startswith x ''```''" "CHR 0x0A \<notin> set x"
  shows "strip_fence x = Inl IndexError"
  using assms by (simp add: strip_fence_def split1_def find_sep_NL_None py_get_def)

text \<open>
  C9. When the provider's text, once stripped, starts with a code fence and holds no
  newline, the indexing after the split raises IndexError: analyze answers 500 and stores
  nothing, instead of the degraded result.
\<close>

theorem fence_without_newline_is_500:
  assumes "get_clients env = Inr ()" "valid_session (req_session_id data) s = Some (sid, sess)"
    "strip (request_prompt data) \<noteq> []"
    "provider_call claude data sess = Inr (t # rest)"
    "startswith (strip t) ''```''" "CHR 0x0A \<notin> set (strip t)"
  shows "analyze env claude loads data s =
           (Inr (500, Error_exn ''Analysis error: '' IndexError), s)"
  using assms(4) strip_fence_no_newline [OF assms(5,6)]
  by (simp add: analyze_ready [OF assms(1-3)] analyze_try_def analyze_except_def
      provider_call_def py_get_def)

lemma analyze_parse_failure:
  assumes "get_clients env = Inr ()" "valid_session (req_session_id data) s = Some (sid, sess)"
    "strip (request_prompt data) \<noteq> []"
    "provider_call claude data sess = Inr (t # rest)"
    "strip_fence (strip t) = Inr rt" "loads rt = None"
  shows "analyze env claude loads data s =
           (Inr (200, Analysed_note rt json_note),
            set_analysis sid sess
              \<lparr>summary = PStr rt, attributes = PDict [],
               prompt_used = request_prompt data, model = request_model data\<rparr> s)"
  using assms(4,5,6)
  by (simp add: analyze_ready [OF assms(1-3)] analyze_try_def analyze_except_def
      provider_call_def py_get_def json_note_def)

lemma strip_fence_plain: "\<not> startswith x ''```'' \<Longrightarrow> strip_fence x = Inr x"
  by (simp add: strip_fence_def)

text \<open>
  C4 (as amended). When the text handed to \<open>json.loads\<close>, that is the provider's text
  stripped of surrounding white space and of a code fence, is rejected, analyze answers
  200 with the note, and stores an analysis with no attributes whose summary is that
  stripped text; without a fence it is the provider's text stripped of white space.
\<close>

theorem parse_failure_stores_stripped_text:
  assumes "get_clients env = Inr ()" "valid_session (req_session_id data) s = Some (sid, sess)"
    "strip (request_prompt data) \<noteq> []"
    "provider_call claude data sess = Inr (t # rest)"
    "strip_fence (strip t) = Inr rt" "loads rt = None"
  shows "analyze env claude loads data s =
           (Inr (200, Analysed_note rt json_note),
            set_analysis sid sess
              \<lparr>summary = PStr rt, attributes = PDict [],
               prompt_used = request_prompt data, model = request_model data\<rparr> s) \<and>
         (\<not> startswith (strip t) ''```'' \<longrightarrow> rt = strip t)"
  using assms(4,5,6)
  by (auto simp add: analyze_ready [OF assms(1-3)] analyze_try_def analyze_except_def
      provider_call_def py_get_def json_note_def strip_fence_plain)

lemma example_ready:
  "valid_session (req_session_id example_request) analysed_state =
     Some (''1700000000_talk'', analysed_session)"
  "strip (request_prompt example_request) \<noteq> []"
  "request_prompt example_request = ''Rate the sentiment''"
  "request_model example_request = ''claude-sonnet-4-5-20250929''"
  "strip ''Rate the sentiment'' \<noteq> []"
  by (simp_all add: valid_session_def example_request_def analysed_state_def strip_def
      isspace_def request_prompt_def request_model_def)

lemma strip_examples:
  "strip '' The caller sounds happy. '' = ''The caller sounds happy.''"
  "strip ''```'' = ''```''"
  "strip fenced_prose = fenced_prose"
  "strip example_json = example_json"
  by (simp_all add: strip_def isspace_def fenced_prose_def prose_line_def NL_def
      example_json_def)

lemma strip_fence_examples:
  "strip_fence ''The caller sounds happy.'' = Inr ''The caller sounds happy.''"
  "strip_fence fenced_prose = Inr prose_line"
  "strip_fence example_json = Inr example_json"
  by (simp_all add: strip_fence_def startswith_def fenced_prose_def prose_line_def NL_def
      split1_def rsplit1_def py_get_def example_json_def)

lemma example_loads_None:
  "example_loads ''The caller sounds happy.'' = None"
  "example_loads '' The caller sounds happy. '' = None"
  "example_loads prose_line = None"
  by (simp_all add: example_loads_def example_json_def prose_line_def NL_def)

theorem parse_failure_stores_stripped_text_witness:
  "get_clients example_env = Inr () \<and>
   valid_session (req_session_id example_request) analysed_state =
     Some (''1700000000_talk'', analysed_session) \<and>
   strip (request_prompt example_request) \<noteq> [] \<and>
   strip_fence (strip fenced_prose) = Inr prose_line \<and>
   example_loads prose_line = None \<and>
   analyze example_env (\<lambda>m n sys msg. Inr [fenced_prose]) example_loads example_request
       analysed_state =
     (Inr (200, Analysed_note prose_line json_note),
      set_analysis ''1700000000_talk'' analysed_session
        \<lparr>summary = PStr prose_line, attributes = PDict [],
         prompt_used = ''Rate the sentiment'', model = ''claude-sonnet-4-5-20250929''\<rparr>
        analysed_state)"
  using parse_failure_stores_stripped_text [where env = example_env and data = example_request
      and s = analysed_state and sid = "''1700000000_talk''" and sess = analysed_session
      and claude = "\<lambda>m n sys msg. Inr [fenced_prose]" and t = fenced_prose and rest = "[]"
      and rt = prose_line and loads = example_loads]
  by (simp add: example_env_ok example_ready strip_examples strip_fence_examples
      example_loads_None provider_call_def)

text \<open>
  C4 as stated fails: the provider answers with prose surrounded by blanks, which is no
  JSON; the stored summary is the prose without the blanks, not the text verbatim.
\<close>

theorem parse_failure_summary_verbatim_counterexample:
  "example_loads '' The caller sounds happy. '' = None \<and>
   analyze example_env (\<lambda>m n sys msg. Inr ['' The caller sounds happy. '']) example_loads
       example_request analysed_state =
     (Inr (200, Analysed_note ''The caller sounds happy.'' json_note),
      set_analysis ''1700000000_talk'' analysed_session
        \<lparr>summary = PStr ''The caller sounds happy.'', attributes = PDict [],
         prompt_used = ''Rate the sentiment'', model = ''claude-sonnet-4-5-20250929''\<rparr>
        analysed_state) \<and>
   ''The caller sounds happy.'' \<noteq> '' The caller sounds happy. ''"
  using analyze_parse_failure [where env = example_env and data = example_request
      and s = analysed_state and sid = "''1700000000_talk''" and sess = analysed_session
      and claude = "\<lambda>m n sys msg. Inr ['' The caller sounds happy. '']"
      and t = "'' The caller sounds happy. ''" and rest = "[]"
      and rt = "''The caller sounds happy.''" and loads = example_loads]
  by (simp add: example_env_ok example_ready strip_examples strip_fence_examples
      example_loads_None provider_call_def)

theorem provider_failure_leaves_state_witness:
  "get_clients example_env = Inr () \<and>
   valid_session (req_session_id example_request) analysed_state =
     Some (''1700000000_talk'', analysed_session) \<and>
   strip (request_prompt example_request) \<noteq> [] \<and>
   Raised ''rate limit exceeded'' \<noteq> JSONDecodeError \<and>
   analyze example_env (\<lambda>m n sys msg. Inl (Raised ''rate limit exceeded'')) example_loads
       example_request analysed_state =
     (Inr (500, Error_exn ''Analysis error: '' (Raised ''rate limit exceeded'')),
      analysed_state)"
  using provider_failure_leaves_state [where env = example_env and data = example_request
      and s = analysed_state and sid = "''1700000000_talk''" and sess = analysed_session
      and claude = "\<lambda>m n sys msg. Inl (Raised ''rate limit exceeded'')"
      and e = "Raised ''rate limit exceeded''" and loads = example_loads]
  by (simp add: example_env_ok example_ready provider_call_def)

theorem fence_without_newline_is_500_witness:
  "get_clients example_env = Inr () \<and>
   valid_session (req_session_id example_request) analysed_state =
     Some (''1700000000_talk'', analysed_session) \<and>
   strip (request_prompt example_request) \<noteq> [] \<and>
   startswith (strip ''```'') ''```'' \<and> CHR 0x0A \<notin> set (strip ''```'') \<and>
   analyze example_env (\<lambda>m n sys msg. Inr [''```'']) example_loads example_request
       analysed_state =
     (Inr (500, Error_exn ''Analysis error: '' IndexError), analysed_state)"
  using fence_without_newline_is_500 [where env = example_env and data = example_request
      and s = analysed_state and sid = "''1700000000_talk''" and sess = analysed_session
      and claude = "\<lambda>m n sys msg. Inr [''```'']" and t = "''```''" and rest = "[]"
      and loads = example_loads]
  by (simp add: example_env_ok example_ready provider_call_def strip_examples startswith_def)

text \<open>
  C6. A call that reaches the parse, on an existing session, replaces the field
  \<open>analysis\<close> of that session and nothing else, both when the text is a JSON object and
  when it is rejected: the new record holds the summary and attributes of the answer and
  the prompt and model of the request, whatever analysis was stored before; the other
  fields of the session, the other sessions and the files stay as they were.
\<close>

theorem analyze_replaces_analysis:
  assumes "get_clients env = Inr ()" "valid_session (req_session_id data) s = Some (sid, sess)"
    "strip (request_prompt data) \<noteq> []"
    "provider_call claude data sess = Inr (t # rest)"
    "strip_fence (strip t) = Inr rt"
  shows "(\<forall>result. loads rt = Some (PDict result) \<longrightarrow>
            analyze env claude loads data s =
              (Inr (200, Analysed (dict_get result ''summary'' (PStr []))
                                  (dict_get result ''attributes'' (PDict []))),
               s\<lparr>session_store := (session_store s)(sid \<mapsto> sess\<lparr>analysis := Some
                    \<lparr>summary = dict_get result ''summary'' (PStr []),
                     attributes = dict_get result ''attributes'' (PDict []),
                     prompt_used = request_prompt data,
                     model = request_model data\<rparr>\<rparr>)\<rparr>)) \<and>
         (loads rt = None \<longrightarrow>
            analyze env claude loads data s =
              (Inr (200, Analysed_note rt json_note),
               s\<lparr>session_store := (session_store s)(sid \<mapsto> sess\<lparr>analysis := Some
                    \<lparr>summary = PStr rt, attributes = PDict [],
                     prompt_used = request_prompt data,
                     model = request_model data\<rparr>\<rparr>)\<rparr>))"
  using assms(4,5)
  by (simp add: analyze_ready [OF assms(1-3)] analyze_try_def analyze_except_def
      provider_call_def py_get_def json_note_def set_analysis_def Let_def)

text \<open>
  Conversely, every answer 200 of analyze comes with such a replacement.
\<close>

lemma analyze_200_only_replaces:
  assumes "analyze env claude loads data s = (Inr (200, body), s')"
  shows "\<exists>sid sess a.
           valid_session (req_session_id data) s = Some (sid, sess) \<and>
           s' = s\<lparr>session_store := (session_store s)(sid \<mapsto> sess\<lparr>analysis := Some a\<rparr>)\<rparr> \<and>
           ((\<exists>summ attrs. body = Analysed summ attrs \<and>
               a = \<lparr>summary = summ, attributes = attrs,
                    prompt_used = request_prompt data, model = request_model data\<rparr>) \<or>
            (\<exists>rt. body = Analysed_note rt json_note \<and>
               a = \<lparr>summary = PStr rt, attributes = PDict [],
                    prompt_used = request_prompt data, model = request_model data\<rparr>))"
proof -
  have "\<not> (get_clients env \<noteq> Inr () \<or> valid_session (req_session_id data) s = None \<or>
    strip (request_prompt data) = [])"
  proof
    assume "get_clients env \<noteq> Inr () \<or> valid_session (req_session_id data) s = None \<or>
      strip (request_prompt data) = []"
    from analyze_not_ready [OF this, of claude loads] assms show False by simp
  qed
  then have ready: "get_clients env = Inr ()" "strip (request_prompt data) \<noteq> []"
    and "valid_session (req_session_id data) s \<noteq> None"
    by simp_all
  then obtain sid sess where v: "valid_session (req_session_id data) s = Some (sid, sess)"
    by (cases "valid_session (req_session_id data) s") auto
  have "analyze_try claude loads sid sess (request_prompt data) (request_model data) s =
          (Inr (200, body), s')"
    using analyze_ready [OF ready(1) v ready(2)] assms by simp
  then show ?thesis using v
    by (auto simp add: analyze_try_def analyze_except_def set_analysis_def json_note_def
        Let_def split: sum.splits option.splits if_splits pyval.splits)
qed

theorem analyze_replaces_analysis_witness:
  "get_clients example_env = Inr () \<and>
   valid_session (req_session_id example_request) analysed_state =
     Some (''1700000000_talk'', analysed_session) \<and>
   strip (request_prompt example_request) \<noteq> [] \<and>
   strip_fence (strip example_json) = Inr example_json \<and>
   strip_fence (strip fenced_prose) = Inr prose_line \<and>
   example_loads prose_line = None \<and>
   attributes (the (analysis analysed_session)) = PDict [(''topic'', PStr ''greeting'')] \<and>
   analyze example_env (\<lambda>m n sys msg. Inr [example_json]) example_loads example_request
       analysed_state =
     (Inr (200, Analysed (PStr ''A greeting.'') (PDict [(''sentiment'', PStr ''positive'')])),
      analysed_state\<lparr>session_store := (session_store analysed_state)(''1700000000_talk'' \<mapsto>
        analysed_session\<lparr>analysis := Some
          \<lparr>summary = PStr ''A greeting.'', attributes = PDict [(''sentiment'', PStr ''positive'')],
           prompt_used = ''Rate the sentiment'', model = ''claude-sonnet-4-5-20250929''\<rparr>\<rparr>)\<rparr>) \<and>
   analyze example_env (\<lambda>m n sys msg. Inr [fenced_prose]) example_loads example_request
       analysed_state =
     (Inr (200, Analysed_note prose_line json_note),
      analysed_state\<lparr>session_store := (session_store analysed_state)(''1700000000_talk'' \<mapsto>
        analysed_session\<lparr>analysis := Some
          \<lparr>summary = PStr prose_line, attributes = PDict [],
           prompt_used = ''Rate the sentiment'', model = ''claude-sonnet-4-5-20250929''\<rparr>\<rparr>)\<rparr>)"
proof -
  have l: "example_loads example_json =
      Some (PDict [(''summary'', PStr ''A greeting.''),
                   (''attributes'', PDict [(''sentiment'', PStr ''positive'')])])"
    by (simp add: example_loads_def)
  have p1: "provider_call (\<lambda>m n sys msg. Inr [example_json]) example_request analysed_session =
      Inr (example_json # [])"
    and p2: "provider_call (\<lambda>m n sys msg. Inr [fenced_prose]) example_request analysed_session =
      Inr (fenced_prose # [])"
    by (simp_all add: provider_call_def)
  have f1: "strip_fence (strip example_json) = Inr example_json"
    and f2: "strip_fence (strip fenced_prose) = Inr prose_line"
    by (simp_all add: strip_examples strip_fence_examples)
  note t1 = analyze_replaces_analysis [OF example_env_ok example_ready(1,2) p1 f1,
      where loads = example_loads]
  note t2 = analyze_replaces_analysis [OF example_env_ok example_ready(1,2) p2 f2,
      where loads = example_loads]
  have a: "attributes (the (analysis analysed_session)) = PDict [(''topic'', PStr ''greeting'')]"
    by (simp add: analysed_session_def)
  from t1 l have r1: "analyze example_env (\<lambda>m n sys msg. Inr [example_json]) example_loads
       example_request analysed_state =
     (Inr (200, Analysed (PStr ''A greeting.'') (PDict [(''sentiment'', PStr ''positive'')])),
      analysed_state\<lparr>session_store := (session_store analysed_state)(''1700000000_talk'' \<mapsto>
        analysed_session\<lparr>analysis := Some
          \<lparr>summary = PStr ''A greeting.'', attributes = PDict [(''sentiment'', PStr ''positive'')],
           prompt_used = ''Rate the sentiment'', model = ''claude-sonnet-4-5-20250929''\<rparr>\<rparr>)\<rparr>)"
    by (simp add: dict_get_def example_ready)
  from t2 example_loads_None(3) have r2: "analyze example_env
       (\<lambda>m n sys msg. Inr [fenced_prose]) example_loads example_request analysed_state =
     (Inr (200, Analysed_note prose_line json_note),
      analysed_state\<lparr>session_store := (session_store analysed_state)(''1700000000_talk'' \<mapsto>
        analysed_session\<lparr>analysis := Some
          \<lparr>summary = PStr prose_line, attributes = PDict [],
           prompt_used = ''Rate the sentiment'', model = ''claude-sonnet-4-5-20250929''\<rparr>\<rparr>)\<rparr>)"
    by (simp add: example_ready)
  from r1 r2 a f1 f2 example_env_ok example_ready(1,2) example_loads_None(3)
  show ?thesis by blast
qed

subsection \<open>export_csv and export_docx\<close>

lemma rsplit1_dot_0: "py_get (rsplit1 ''.'' x) 0 = Inr (without_final_extension x)"
  by (simp add: rsplit1_def py_get_def without_final_extension_def split: option.splits)


















lemma py_minutes: "py_int (exact_floordiv d 60) = \<lfloor>d\<rfloor> div 60"
proof -
  have "\<lfloor>d / 60\<rfloor> = \<lfloor>d\<rfloor> div 60"
    using floor_divide_real_eq_div [of 60 d] by simp
  then show ?thesis by (simp add: py_int_def exact_floordiv_def)
qed

lemma py_seconds: "py_int (exact_mod d 60) = \<lfloor>d\<rfloor> mod 60"
proof -
  have q: "\<lfloor>d / 60\<rfloor> = \<lfloor>d\<rfloor> div 60"
    using floor_divide_real_eq_div [of 60 d] by simp
  have eq: "exact_mod d 60 = d - of_int (60 * (\<lfloor>d\<rfloor> div 60))"
    by (simp add: exact_mod_def q)
  have fl: "\<lfloor>exact_mod d 60\<rfloor> = \<lfloor>d\<rfloor> mod 60"
    unfolding eq floor_diff_of_int by (simp add: minus_mult_div_eq_mod)
  have "0 \<le> \<lfloor>exact_mod d 60\<rfloor>" unfolding fl by simp
  then have "0 \<le> exact_mod d 60" by (simp only: zero_le_floor)
  then show ?thesis using fl by (simp add: py_int_def)
qed


lemma xml_ok_append: "xml_ok (a @ b) = (xml_ok a \<and> xml_ok b)"
  by (auto simp add: xml_ok_def)

lemma str_nat_digits: "set (str_nat n) \<subseteq> set ''0123456789''"
proof (induction n rule: str_nat.induct)
  case (1 n)
  show ?case
  proof (cases "n < 10")
    case True
    then have "''0123456789'' ! n \<in> set ''0123456789''" by (intro nth_mem) simp
    with True show ?thesis by (subst str_nat.simps) simp
  next
    case False
    have "''0123456789'' ! (n mod 10) \<in> set ''0123456789''" by (intro nth_mem) simp
    with False "1.IH" show ?thesis by (subst str_nat.simps) simp
  qed
qed

lemma xml_ok_str_int: "xml_ok (str_int i)"
proof -
  have "\<And>n c. c \<in> set (str_nat n) \<Longrightarrow> c \<notin> set xml_invalid"
    using str_nat_digits by (fastforce simp add: xml_invalid_def)
  then show ?thesis by (auto simp add: xml_ok_def str_int_def xml_invalid_def)
qed

lemma add_run_Inr:
  "add_run t b sz col = Inr r \<Longrightarrow>
     r = \<lparr>run_text = t, run_bold = b, run_size = sz, run_color = col\<rparr>"
  by (simp add: add_run_def split: if_splits)

lemma duration_run_ok:
  "add_run (''  |  Duration: '' @ str_int m @ ''m '' @ str_int n @ ''s'') False (Some 10)
     (Some (128, 128, 128)) = Inr (duration_run m n)"
proof -
  have k: "xml_ok ''  |  Duration: ''" "xml_ok ''m ''" "xml_ok ''s''"
    by (simp_all add: xml_ok_def xml_invalid_def)
  have "xml_ok (''  |  Duration: '' @ str_int m @ ''m '' @ str_int n @ ''s'')"
    unfolding xml_ok_append using k xml_ok_str_int by blast
  then show ?thesis unfolding add_run_def duration_run_def by (simp only: if_True)
qed


lemma speaker_paragraph_Inr: "speaker_paragraph u = Inr p \<Longrightarrow> p = speaker_block u"
  by (auto simp add: speaker_paragraph_def speaker_block_def dest!: add_run_Inr
      split: sum.splits)

lemma collect_map_Inr:
  assumes "\<And>x y. f x = Inr y \<Longrightarrow> y = g x"
  shows "collect (map f xs) = Inr ys \<Longrightarrow> ys = map g xs"
proof (induction xs arbitrary: ys)
  case Nil
  then show ?case by simp
next
  case (Cons x xs)
  then show ?case using assms by (auto split: sum.splits)
qed

lemma add_paragraph_Inr: "add_paragraph v = Inr p \<Longrightarrow> p = Text_paragraph v"
  by (auto simp add: add_paragraph_def split: if_splits pyval.splits option.splits)

lemma transcript_body_Inr:
  assumes "transcript_body sess = Inr body"
  shows "body = (if utterances sess = [] then [Text_paragraph (PStr (full_text sess))]
                 else map speaker_block (utterances sess))"
proof (cases "utterances sess = []")
  case True
  with assms show ?thesis
    by (auto simp add: transcript_body_def dest: add_paragraph_Inr split: sum.splits)
next
  case False
  with assms have "collect (map speaker_paragraph (utterances sess)) = Inr body"
    by (simp add: transcript_body_def)
  then have "body = map speaker_block (utterances sess)"
    by (rule collect_map_Inr [rotated]) (rule speaker_paragraph_Inr)
  with False show ?thesis by simp
qed

lemma export_docx_Inr:
  assumes "valid_session session_id s = Some (sid, sess)"
    "export_docx fdiv fmod session_id s = (Inr resp, s')"
  shows "\<exists>meta body sec.
           meta_paragraph fdiv fmod sess = Inr meta \<and> transcript_body sess = Inr body \<and>
           analysis_section sess = Inr sec \<and>
           resp = (200, Send_file (docx_path sid)
                    (''transcript_'' @ without_final_extension (filename sess) @ ''.docx'')
                    docx_mimetype) \<and>
           s' = s\<lparr>files := (files s)(docx_path sid \<mapsto> Docx
                  \<lparr>blocks = [Heading ''Audio Transcript'' 0 (Some CENTER), meta,
                              Text_paragraph (PStr []), Heading ''Transcript'' 1 None]
                             @ body @ sec,
                   normal_font_size =
                     (if utterances sess = [] \<or> analysis sess \<noteq> None then Some 11
                      else None)\<rparr>)\<rparr>"
  using assms
  by (auto simp add: export_docx_def rsplit1_dot_0 docx_path_def Let_def split: sum.splits)

lemma export_docx_ok:
  assumes "valid_session session_id s = Some (sid, sess)"
    "meta_paragraph fdiv fmod sess = Inr meta" "transcript_body sess = Inr body"
    "analysis_section sess = Inr sec"
  shows "export_docx fdiv fmod session_id s =
     (Inr (200, Send_file (docx_path sid)
                  (''transcript_'' @ without_final_extension (filename sess) @ ''.docx'')
                  docx_mimetype),
      s\<lparr>files := (files s)(docx_path sid \<mapsto> Docx
           \<lparr>blocks = [Heading ''Audio Transcript'' 0 (Some CENTER), meta,
                       Text_paragraph (PStr []), Heading ''Transcript'' 1 None]
                      @ body @ sec,
            normal_font_size =
              (if utterances sess = [] \<or> analysis sess \<noteq> None then Some 11 else None)\<rparr>)\<rparr>)"
  using assms by (simp add: export_docx_def rsplit1_dot_0 docx_path_def Let_def)

text \<open>
  C7 (as amended). Whenever export_docx succeeds on a session, the blocks of the saved
  document between the heading \<open>Transcript\<close> and the analysis section are: the one
  paragraph made of \<open>full_text\<close> when the session has no utterances; else one paragraph
  per utterance, in the order of the session's list, each a bold run
  \<open>Speaker {label}: \<close> followed by a run with the utterance's text.
\<close>

theorem docx_transcript_paragraphs:
  assumes "valid_session session_id s = Some (sid, sess)"
    and "export_docx fdiv fmod session_id s = (Inr resp, s')"
  shows "\<exists>doc meta sec.
           files s' (docx_path sid) = Some (Docx doc) \<and>
           analysis_section sess = Inr sec \<and>
           blocks doc =
             [Heading ''Audio Transcript'' 0 (Some CENTER), meta, Text_paragraph (PStr []),
              Heading ''Transcript'' 1 None]
             @ (if utterances sess = [] then [Text_paragraph (PStr (full_text sess))]
                else map speaker_block (utterances sess))
             @ sec"
proof -
  from export_docx_Inr [OF assms] obtain meta body sec where
    b: "transcript_body sess = Inr body" and sec: "analysis_section sess = Inr sec" and
    s': "s' = s\<lparr>files := (files s)(docx_path sid \<mapsto> Docx
                  \<lparr>blocks = [Heading ''Audio Transcript'' 0 (Some CENTER), meta,
                              Text_paragraph (PStr []), Heading ''Transcript'' 1 None]
                             @ body @ sec,
                   normal_font_size =
                     (if utterances sess = [] \<or> analysis sess \<noteq> None then Some 11
                      else None)\<rparr>)\<rparr>"
    by blast
  from transcript_body_Inr [OF b] s' sec show ?thesis by simp
qed


lemma example_texts_ok:
  "xml_ok ''File: talk.wav  |  Date: 2026-01-01''"
  "xml_ok ''Speaker A: ''" "xml_ok ''Speaker B: ''" "xml_ok ''hello''" "xml_ok ''world''"
  "xml_ok ''hello world''" "xml_ok ''What is the topic?''" "xml_ok ''Two people greet.''"
  "xml_ok ''topic''" "xml_ok ''greeting''"
  "\<not> xml_ok [CHR ''a'', CHR 0x01, CHR ''b'']"
  by (simp_all add: xml_ok_def xml_invalid_def)

lemma example_meta:
  assumes "filename sess = ''talk.wav''" "timestamp sess = ''2026-01-01T10:00:00''"
    "duration_seconds sess = 65.4"
  shows "meta_paragraph exact_floordiv exact_mod sess =
     Inr (Paragraph (Some CENTER)
            [\<lparr>run_text = ''File: talk.wav  |  Date: 2026-01-01'', run_bold = False,
               run_size = Some 10, run_color = Some (128, 128, 128)\<rparr>,
             duration_run 1 5])"
proof -
  have "\<lfloor>duration_seconds sess\<rfloor> = 65" unfolding assms(3) by simp
  then have "py_int (exact_floordiv (duration_seconds sess) 60) = 1"
    "py_int (exact_mod (duration_seconds sess) 60) = 5"
    by (simp_all add: py_minutes py_seconds)
  then show ?thesis
    unfolding meta_paragraph_def duration_run_ok
    by (simp add: assms add_run_def example_texts_ok)
qed

lemma dialogue_valid:
  "valid_session (Some ''1700000000_talk'') dialogue_state =
     Some (''1700000000_talk'', dialogue_session)"
  by (simp add: valid_session_def dialogue_state_def)

lemma plain_valid:
  "valid_session (Some ''1700000000_talk'') plain_state =
     Some (''1700000000_talk'', example_session)"
  by (simp add: valid_session_def plain_state_def)

lemma ctrl_valid:
  "valid_session (Some ''1700000000_talk'') ctrl_state =
     Some (''1700000000_talk'', ctrl_session)"
  by (simp add: valid_session_def ctrl_state_def)




lemma dialogue_body:
  "transcript_body dialogue_session =
     Inr [speaker_block \<lparr>speaker = ''A'', u_text = ''hello'', u_start = 0, u_end = 400\<rparr>,
          speaker_block \<lparr>speaker = ''B'', u_text = ''world'', u_start = 450, u_end = 900\<rparr>]"
  "analysis_section dialogue_session = Inr []"
  by (simp_all add: transcript_body_def dialogue_session_def speaker_paragraph_def add_run_def
      example_texts_ok speaker_block_def analysis_section_def)

lemma plain_body:
  "transcript_body example_session = Inr [Text_paragraph (PStr ''hello world'')]"
  "analysis_section example_session = Inr []"
  by (simp_all add: transcript_body_def example_session_def add_paragraph_def
      example_texts_ok analysis_section_def)

lemma dialogue_export:
  "fst (export_docx exact_floordiv exact_mod (Some ''1700000000_talk'') dialogue_state) =
     Inr (200, Send_file (docx_path ''1700000000_talk'') ''transcript_talk.docx'' docx_mimetype)"
  by (simp add: export_docx_ok [OF dialogue_valid example_meta dialogue_body]
      dialogue_session_def without_final_extension_def)

lemma plain_export:
  "fst (export_docx exact_floordiv exact_mod (Some ''1700000000_talk'') plain_state) =
     Inr (200, Send_file (docx_path ''1700000000_talk'') ''transcript_talk.docx'' docx_mimetype)"
  by (simp add: export_docx_ok [OF plain_valid example_meta plain_body]
      example_session_def without_final_extension_def)

theorem docx_transcript_paragraphs_witness:
  "valid_session (Some ''1700000000_talk'') dialogue_state =
     Some (''1700000000_talk'', dialogue_session) \<and>
   fst (export_docx exact_floordiv exact_mod (Some ''1700000000_talk'') dialogue_state) =
     Inr (200, Send_file (docx_path ''1700000000_talk'') ''transcript_talk.docx'' docx_mimetype) \<and>
   (\<exists>doc. files (snd (export_docx exact_floordiv exact_mod (Some ''1700000000_talk'')
                        dialogue_state)) (docx_path ''1700000000_talk'') = Some (Docx doc) \<and>
          drop 4 (blocks doc) =
            [Paragraph None
               [\<lparr>run_text = ''Speaker A: '', run_bold = True, run_size = Some 11,
                  run_color = Some (44, 62, 80)\<rparr>,
                \<lparr>run_text = ''hello'', run_bold = False, run_size = Some 11,
                  run_color = None\<rparr>],
             Paragraph None
               [\<lparr>run_text = ''Speaker B: '', run_bold = True, run_size = Some 11,
                  run_color = Some (44, 62, 80)\<rparr>,
                \<lparr>run_text = ''world'', run_bold = False, run_size = Some 11,
                  run_color = None\<rparr>]]) \<and>
   (\<exists>doc. files (snd (export_docx exact_floordiv exact_mod (Some ''1700000000_talk'')
                        plain_state)) (docx_path ''1700000000_talk'') = Some (Docx doc) \<and>
          drop 4 (blocks doc) = [Text_paragraph (PStr ''hello world'')])"
proof -
  have e1: "export_docx exact_floordiv exact_mod (Some ''1700000000_talk'') dialogue_state =
      (Inr (200, Send_file (docx_path ''1700000000_talk'') ''transcript_talk.docx''
              docx_mimetype),
       snd (export_docx exact_floordiv exact_mod (Some ''1700000000_talk'') dialogue_state))"
    using dialogue_export by (simp add: prod_eq_iff)
  have e2: "export_docx exact_floordiv exact_mod (Some ''1700000000_talk'') plain_state =
      (Inr (200, Send_file (docx_path ''1700000000_talk'') ''transcript_talk.docx''
              docx_mimetype),
       snd (export_docx exact_floordiv exact_mod (Some ''1700000000_talk'') plain_state))"
    using plain_export by (simp add: prod_eq_iff)
  from docx_transcript_paragraphs [OF dialogue_valid e1] obtain d1 m1 sec1 where
    d1: "files (snd (export_docx exact_floordiv exact_mod (Some ''1700000000_talk'')
                        dialogue_state)) (docx_path ''1700000000_talk'') = Some (Docx d1)"
      "analysis_section dialogue_session = Inr sec1"
      "blocks d1 = [Heading ''Audio Transcript'' 0 (Some CENTER), m1, Text_paragraph (PStr []),
              Heading ''Transcript'' 1 None]
             @ (if utterances dialogue_session = []
                then [Text_paragraph (PStr (full_text dialogue_session))]
                else map speaker_block (utterances dialogue_session)) @ sec1"
    by blast
  from docx_transcript_paragraphs [OF plain_valid e2] obtain d2 m2 sec2 where
    d2: "files (snd (export_docx exact_floordiv exact_mod (Some ''1700000000_talk'')
                        plain_state)) (docx_path ''1700000000_talk'') = Some (Docx d2)"
      "analysis_section example_session = Inr sec2"
      "blocks d2 = [Heading ''Audio Transcript'' 0 (Some CENTER), m2, Text_paragraph (PStr []),
              Heading ''Transcript'' 1 None]
             @ (if utterances example_session = []
                then [Text_paragraph (PStr (full_text example_session))]
                else map speaker_block (utterances example_session)) @ sec2"
    by blast
  have sec: "sec1 = []" "sec2 = []"
    using d1(2) d2(2) by (simp_all add: dialogue_body plain_body)
  have "drop 4 (blocks d1) =
            [Paragraph None
               [\<lparr>run_text = ''Speaker A: '', run_bold = True, run_size = Some 11,
                  run_color = Some (44, 62, 80)\<rparr>,
                \<lparr>run_text = ''hello'', run_bold = False, run_size = Some 11,
                  run_color = None\<rparr>],
             Paragraph None
               [\<lparr>run_text = ''Speaker B: '', run_bold = True, run_size = Some 11,
                  run_color = Some (44, 62, 80)\<rparr>,
                \<lparr>run_text = ''world'', run_bold = False, run_size = Some 11,
                  run_color = None\<rparr>]]"
    by (simp add: d1(3) sec dialogue_session_def speaker_block_def)
  moreover have "drop 4 (blocks d2) = [Text_paragraph (PStr ''hello world'')]"
    by (simp add: d2(3) sec example_session_def)
  ultimately show ?thesis using d1(1) d2(1) dialogue_valid dialogue_export by blast
qed

text \<open>
  C7 as stated fails: for a session without utterances whose text holds a control
  character the export raises ValueError and no document is written.
\<close>

theorem docx_control_character_counterexample:
  "valid_session (Some ''1700000000_talk'') ctrl_state =
     Some (''1700000000_talk'', ctrl_session) \<and>
   utterances ctrl_session = [] \<and> full_text ctrl_session = [CHR ''a'', CHR 0x01, CHR ''b''] \<and>
   export_docx exact_floordiv exact_mod (Some ''1700000000_talk'') ctrl_state =
     (Inl ValueError, ctrl_state) \<and>
   files ctrl_state (docx_path ''1700000000_talk'') = None"
proof -
  have m: "filename ctrl_session = ''talk.wav''"
    "timestamp ctrl_session = ''2026-01-01T10:00:00''" "duration_seconds ctrl_session = 65.4"
    by (simp_all add: ctrl_session_def example_session_def)
  have b: "transcript_body ctrl_session = Inl ValueError"
    by (simp add: transcript_body_def ctrl_session_def example_session_def add_paragraph_def
        example_texts_ok)
  have "export_docx exact_floordiv exact_mod (Some ''1700000000_talk'') ctrl_state =
          (Inl ValueError, ctrl_state)"
    by (simp add: export_docx_def ctrl_valid example_meta [OF m] b)
  then show ?thesis
    by (simp add: ctrl_valid) (simp add: ctrl_session_def example_session_def ctrl_state_def)
qed





end
